theory Spec2Isabelle
  imports Complex_Main
begin

section \<open>Data model of the unified API client\<close>

text \<open>
  The embedding follows the Python sources under \<^verbatim>\<open>config/config-api\<close>.
  Python numbers (ints and floats of the configuration, costs) are idealised as
  rationals; token counts are unbounded integers. Dictionaries read with
  \<^verbatim>\<open>d.get(k, default)\<close> become optional fields, dictionaries read with
  \<^verbatim>\<open>d[k]\<close> raise \<^verbatim>\<open>KeyError\<close> when the field is absent.
\<close>

subsection \<open>Exceptions\<close>

text \<open>
  Every \<^verbatim>\<open>ValueError\<close> the sources raise, by the place that raises it. The
  last two are raised by library code: a vendor SDK may raise a \<^verbatim>\<open>ValueError\<close>
  of its own, and \<^verbatim>\<open>time.sleep\<close> refuses a negative duration.
\<close>

datatype value_error =
    DailyLimitExceeded string int int
  | CostLimitExceeded rat rat
  | AgentNotFound string
  | ProviderNotInConfig string
  | ProviderNotFound string
  | NoEnvVarConfigured string
  | ApiKeyNotFound string string
  | UnknownProvider string
  | ProviderNotEnabled string
  | SdkValueError string
  | NegativeSleep

datatype exn =
    ValueError value_error
  | KeyError string
  | IndexError
  | AttributeError
  | ImportError string
  | NotImplementedError
  | TransportError string
  | AllProvidersFailed exn

fun is_ValueError :: "exn \<Rightarrow> bool" where
  "is_ValueError (ValueError v) = True"
| "is_ValueError e = False"

subsection \<open>Configuration (agency-config.json)\<close>

record billing =
  input_per_mtok :: "rat option"
  output_per_mtok :: "rat option"

record provider_config =
  model :: "string option"
  enabled :: bool
  max_tokens :: "int option"
  api_key_env_var :: "string option"
  billing :: "billing option"

record agent_config =
  provider :: "string option"
  fallback_providers :: "string list"
  requests_per_day :: "int option"

record api_config =
  retry_backoff_base :: "rat option"

record config =
  providers :: "string \<rightharpoonup> provider_config"
  agents :: "string \<rightharpoonup> agent_config"
  hard_limit_dollars :: "rat option"
  api :: "api_config option"

subsection \<open>Responses and the usage log\<close>

record api_response =
  content :: string
  resp_model :: string
  input_tokens :: int
  output_tokens :: int
  resp_cost_usd :: rat
  resp_provider :: string

record timestamp =
  date :: int
  time_of_day :: rat

datatype metadata = MaxTokens "int option" | ErrorText exn

text \<open>
  An entry of the usage log as the queries read it: \<^verbatim>\<open>log["timestamp"]\<close> is
  required, the other fields are read with \<^verbatim>\<open>log.get\<close>.
\<close>

record log_entry =
  log_timestamp :: "timestamp option"
  agent :: "string option"
  log_provider :: "string option"
  tokens_in :: int
  tokens_out :: int
  log_total_tokens :: "int option"
  log_cost_usd :: "rat option"
  status :: "string option"
  log_metadata :: "metadata option"

text \<open>
  The usage-log file as \<^verbatim>\<open>_load_logs\<close> can find it: absent, present but
  raising \<^verbatim>\<open>IOError\<close> when opened or read, holding text that is not JSON, or
  holding a list of entries.
\<close>

datatype file_state = Missing | Unreadable | InvalidJSON | Logs "log_entry list"

subsection \<open>Providers and the outside world\<close>

datatype provider_kind = Claude | ChatGPT | Grok

record provider_obj =
  kind :: provider_kind
  pconfig :: provider_config
  api_key :: string

record request =
  messages :: "(string \<times> string) list"
  system_prompt :: "string option"
  req_max_tokens :: "int option"

text \<open>What a provider sends to its vendor, and what the vendor's SDK gives back.\<close>

record wire_request =
  wire_model :: string
  wire_max_tokens :: int
  wire_system :: "string option"
  wire_messages :: "(string \<times> string) list"

record raw_response =
  raw_texts :: "string list"
  raw_input_tokens :: int
  raw_output_tokens :: int

datatype net_outcome = NetOk raw_response | NetRaise exn

datatype event = EvTry string | EvCall provider_kind | EvSleep rat

text \<open>
  The state threaded through the client. The first four fields are the environment
  (process environment variables, importable Python packages, the vendors' answers
  to the n-th network request, the n-th reading of the wall clock); the others are
  what the code mutates: the log file, the credential cache and two counters. The
  field \<open>trace\<close> records, in order, each provider the orchestrator turns to, each
  invocation of a provider's \<^verbatim>\<open>call\<close> and each \<^verbatim>\<open>time.sleep\<close>.
\<close>

record state =
  environ :: "string \<rightharpoonup> string"
  importable :: "string \<Rightarrow> bool"
  net :: "provider_kind \<Rightarrow> wire_request \<Rightarrow> nat \<Rightarrow> net_outcome"
  clock :: "nat \<Rightarrow> timestamp"
  log_file :: file_state
  cache :: "string \<rightharpoonup> string"
  net_calls :: nat
  clock_reads :: nat
  trace :: "event list"

definition emit :: "event \<Rightarrow> state \<Rightarrow> state" where
  "emit e st = st\<lparr>trace := trace st @ [e]\<rparr>"

definition datetime_now :: "state \<Rightarrow> timestamp \<times> state" where
  "datetime_now st = (clock st (clock_reads st), st\<lparr>clock_reads := clock_reads st + 1\<rparr>)"

section \<open>Python built-ins\<close>

text \<open>
  \<^verbatim>\<open>round(x, n)\<close>: to the nearest multiple of \<open>10^-n\<close>, a tie to the even one.
\<close>

definition round_half_even :: "rat \<Rightarrow> int" where
  "round_half_even x =
     (let f = \<lfloor>x\<rfloor>; d = x - of_int f
      in if d < 1 / 2 then f
         else if 1 / 2 < d then f + 1
         else if even f then f else f + 1)"

definition py_round :: "rat \<Rightarrow> nat \<Rightarrow> rat" where
  "py_round x n = of_int (round_half_even (x * 10 ^ n)) / 10 ^ n"

text \<open>\<^verbatim>\<open>str.lower\<close> on ASCII text.\<close>

definition lower_char :: "char \<Rightarrow> char" where
  "lower_char c =
     (case map_of (zip ''ABCDEFGHIJKLMNOPQRSTUVWXYZ'' ''abcdefghijklmnopqrstuvwxyz'') c of
        None \<Rightarrow> c
      | Some d \<Rightarrow> d)"

definition lower :: "string \<Rightarrow> string" where
  "lower s = map lower_char s"

section \<open>Providers\<close>

subsection \<open>calculate_cost\<close>

definition ClaudeProvider_calculate_cost :: "provider_config \<Rightarrow> int \<Rightarrow> int \<Rightarrow> exn + rat" where
  "ClaudeProvider_calculate_cost cfg inp outp =
     (case billing cfg of
        None \<Rightarrow> Inl (KeyError ''billing'')
      | Some b \<Rightarrow>
         (case input_per_mtok b of
            None \<Rightarrow> Inl (KeyError ''input_per_mtok'')
          | Some ri \<Rightarrow>
             (let input_cost = (of_int inp * ri) / 1000 in
              case output_per_mtok b of
                None \<Rightarrow> Inl (KeyError ''output_per_mtok'')
              | Some ro \<Rightarrow>
                 (let output_cost = (of_int outp * ro) / 1000
                  in Inr (py_round (input_cost + output_cost) 6)))))"

definition ChatGPTProvider_calculate_cost :: "provider_config \<Rightarrow> int \<Rightarrow> int \<Rightarrow> exn + rat" where
  "ChatGPTProvider_calculate_cost cfg inp outp =
     (case billing cfg of
        None \<Rightarrow> Inl (KeyError ''billing'')
      | Some b \<Rightarrow>
         (case input_per_mtok b of
            None \<Rightarrow> Inl (KeyError ''input_per_mtok'')
          | Some ri \<Rightarrow>
             (let input_cost = (of_int inp * ri) / 1000 in
              case output_per_mtok b of
                None \<Rightarrow> Inl (KeyError ''output_per_mtok'')
              | Some ro \<Rightarrow>
                 (let output_cost = (of_int outp * ro) / 1000
                  in Inr (py_round (input_cost + output_cost) 6)))))"

text \<open>The scaffolded provider falls back on placeholder rates 0.002 and 0.01.\<close>

definition GrokProvider_calculate_cost :: "provider_config \<Rightarrow> int \<Rightarrow> int \<Rightarrow> exn + rat" where
  "GrokProvider_calculate_cost cfg inp outp =
     (case billing cfg of
        None \<Rightarrow> Inl (KeyError ''billing'')
      | Some b \<Rightarrow>
         (let input_cost =
                (of_int inp * (case input_per_mtok b of None \<Rightarrow> 2 / 1000 | Some ri \<Rightarrow> ri)) / 1000;
              output_cost =
                (of_int outp * (case output_per_mtok b of None \<Rightarrow> 1 / 100 | Some ro \<Rightarrow> ro)) / 1000
          in Inr (py_round (input_cost + output_cost) 6)))"

fun calculate_cost :: "provider_kind \<Rightarrow> provider_config \<Rightarrow> int \<Rightarrow> int \<Rightarrow> exn + rat" where
  "calculate_cost Claude cfg inp outp = ClaudeProvider_calculate_cost cfg inp outp"
| "calculate_cost ChatGPT cfg inp outp = ChatGPTProvider_calculate_cost cfg inp outp"
| "calculate_cost Grok cfg inp outp = GrokProvider_calculate_cost cfg inp outp"

subsection \<open>call\<close>

text \<open>
  \<^verbatim>\<open>max_tokens or self.config.get("max_tokens", 4096)\<close>.
\<close>

definition effective_max_tokens :: "provider_config \<Rightarrow> int option \<Rightarrow> int" where
  "effective_max_tokens cfg mt =
     (let dflt = (case max_tokens cfg of None \<Rightarrow> 4096 | Some k \<Rightarrow> k)
      in case mt of None \<Rightarrow> dflt | Some k \<Rightarrow> if k \<noteq> 0 then k else dflt)"

definition ClaudeProvider_call ::
  "provider_obj \<Rightarrow> request \<Rightarrow> state \<Rightarrow> (exn + api_response) \<times> state" where
  "ClaudeProvider_call p req st =
     (case model (pconfig p) of
        None \<Rightarrow> (Inl (KeyError ''model''), st)
      | Some m \<Rightarrow>
         (let wr = \<lparr>wire_model = m,
                    wire_max_tokens = effective_max_tokens (pconfig p) (req_max_tokens req),
                    wire_system = system_prompt req,
                    wire_messages = messages req\<rparr>;
              response = net st Claude wr (net_calls st);
              st1 = st\<lparr>net_calls := net_calls st + 1\<rparr>
          in case response of
               NetRaise e \<Rightarrow> (Inl e, st1)
             | NetOk raw \<Rightarrow>
                (case calculate_cost Claude (pconfig p) (raw_input_tokens raw) (raw_output_tokens raw) of
                   Inl e \<Rightarrow> (Inl e, st1)
                 | Inr c \<Rightarrow>
                    (case raw_texts raw of
                       [] \<Rightarrow> (Inl IndexError, st1)
                     | t # ts \<Rightarrow>
                        (Inr \<lparr>content = t, resp_model = m,
                              input_tokens = raw_input_tokens raw,
                              output_tokens = raw_output_tokens raw,
                              resp_cost_usd = c, resp_provider = ''claude''\<rparr>, st1)))))"

definition ChatGPTProvider_call ::
  "provider_obj \<Rightarrow> request \<Rightarrow> state \<Rightarrow> (exn + api_response) \<times> state" where
  "ChatGPTProvider_call p req st =
     (let all_messages =
            (case system_prompt req of
               None \<Rightarrow> []
             | Some sp \<Rightarrow> if sp \<noteq> [] then [(''system'', sp)] else []) @ messages req
      in case model (pconfig p) of
        None \<Rightarrow> (Inl (KeyError ''model''), st)
      | Some m \<Rightarrow>
         (let wr = \<lparr>wire_model = m,
                    wire_max_tokens = effective_max_tokens (pconfig p) (req_max_tokens req),
                    wire_system = None,
                    wire_messages = all_messages\<rparr>;
              response = net st ChatGPT wr (net_calls st);
              st1 = st\<lparr>net_calls := net_calls st + 1\<rparr>
          in case response of
               NetRaise e \<Rightarrow> (Inl e, st1)
             | NetOk raw \<Rightarrow>
                (case calculate_cost ChatGPT (pconfig p) (raw_input_tokens raw) (raw_output_tokens raw) of
                   Inl e \<Rightarrow> (Inl e, st1)
                 | Inr c \<Rightarrow>
                    (case raw_texts raw of
                       [] \<Rightarrow> (Inl IndexError, st1)
                     | t # ts \<Rightarrow>
                        (Inr \<lparr>content = t, resp_model = m,
                              input_tokens = raw_input_tokens raw,
                              output_tokens = raw_output_tokens raw,
                              resp_cost_usd = c, resp_provider = ''chatgpt''\<rparr>, st1)))))"

definition GrokProvider_call ::
  "provider_obj \<Rightarrow> request \<Rightarrow> state \<Rightarrow> (exn + api_response) \<times> state" where
  "GrokProvider_call p req st = (Inl NotImplementedError, st)"

definition provider_call ::
  "provider_obj \<Rightarrow> request \<Rightarrow> state \<Rightarrow> (exn + api_response) \<times> state" where
  "provider_call p req st =
     (case kind p of
        Claude \<Rightarrow> ClaudeProvider_call p req st
      | ChatGPT \<Rightarrow> ChatGPTProvider_call p req st
      | Grok \<Rightarrow> GrokProvider_call p req st)"

subsection \<open>ProviderFactory\<close>

definition PROVIDERS :: "string \<rightharpoonup> provider_kind" where
  "PROVIDERS = [''claude'' \<mapsto> Claude, ''chatgpt'' \<mapsto> ChatGPT, ''grok'' \<mapsto> Grok]"

text \<open>
  The constructors: the ChatGPT and Grok classes import their vendor package and
  raise \<^verbatim>\<open>ImportError\<close> when it is not installed.
\<close>

definition provider_init ::
  "state \<Rightarrow> provider_kind \<Rightarrow> provider_config \<Rightarrow> string \<Rightarrow> exn + provider_obj" where
  "provider_init st k cfg key =
     (let p = \<lparr>kind = k, pconfig = cfg, api_key = key\<rparr>
      in case k of
           Claude \<Rightarrow> Inr p
         | ChatGPT \<Rightarrow> if importable st ''openai'' then Inr p else Inl (ImportError ''openai'')
         | Grok \<Rightarrow> if importable st ''xai_grok'' then Inr p else Inl (ImportError ''xai_grok''))"

definition ProviderFactory_create ::
  "state \<Rightarrow> string \<Rightarrow> provider_config \<Rightarrow> string \<Rightarrow> exn + provider_obj" where
  "ProviderFactory_create st provider_name cfg key =
     (let provider_name_lower = lower provider_name
      in case PROVIDERS provider_name_lower of
           None \<Rightarrow> Inl (ValueError (UnknownProvider provider_name))
         | Some provider_class \<Rightarrow>
             if \<not> enabled cfg then Inl (ValueError (ProviderNotEnabled provider_name))
             else provider_init st provider_class cfg key)"

section \<open>CredentialsManager\<close>

definition CredentialsManager_get :: "config \<Rightarrow> string \<Rightarrow> state \<Rightarrow> (exn + string) \<times> state" where
  "CredentialsManager_get cfg provider_name st =
     (let provider_name_lower = lower provider_name
      in case cache st provider_name_lower of
           Some k \<Rightarrow> (Inr k, st)
         | None \<Rightarrow>
            (case providers cfg provider_name_lower of
               None \<Rightarrow> (Inl (ValueError (ProviderNotFound provider_name)), st)
             | Some pc \<Rightarrow>
                (case api_key_env_var pc of
                   None \<Rightarrow> (Inl (ValueError (NoEnvVarConfigured provider_name)), st)
                 | Some env_var \<Rightarrow>
                    if env_var = [] then (Inl (ValueError (NoEnvVarConfigured provider_name)), st)
                    else
                      (case environ st env_var of
                         None \<Rightarrow> (Inl (ValueError (ApiKeyNotFound provider_name env_var)), st)
                       | Some k \<Rightarrow>
                          if k = [] then (Inl (ValueError (ApiKeyNotFound provider_name env_var)), st)
                          else (Inr k, st\<lparr>cache := (cache st)(provider_name_lower \<mapsto> k)\<rparr>)))))"

section \<open>UsageTracker\<close>

fun load_logs :: "file_state \<Rightarrow> log_entry list" where
  "load_logs Missing = []"
| "load_logs (Logs es) = es"
| "load_logs Unreadable = []"
| "load_logs InvalidJSON = []"

definition make_log_entry ::
  "timestamp \<Rightarrow> string \<Rightarrow> string \<Rightarrow> int \<Rightarrow> int \<Rightarrow> rat \<Rightarrow> string \<Rightarrow> metadata option \<Rightarrow> log_entry" where
  "make_log_entry now agent_name prov tin tout c stat md =
     \<lparr>log_timestamp = Some now, agent = Some agent_name, log_provider = Some prov,
      tokens_in = tin, tokens_out = tout, log_total_tokens = Some (tin + tout),
      log_cost_usd = Some (py_round c 4), status = Some stat, log_metadata = md\<rparr>"

text \<open>
  \<^verbatim>\<open>log_request\<close>: build the entry, load the whole log, append, write the whole
  log back. Writing the file is taken to succeed.
\<close>

definition log_request ::
  "string \<Rightarrow> string \<Rightarrow> int \<Rightarrow> int \<Rightarrow> rat \<Rightarrow> string \<Rightarrow> metadata option \<Rightarrow> state \<Rightarrow> state" where
  "log_request agent_name prov tin tout c stat md st =
     (let (now, st1) = datetime_now st;
          log_entry = make_log_entry now agent_name prov tin tout c stat md;
          logs = load_logs (log_file st1) @ [log_entry]
      in st1\<lparr>log_file := Logs logs\<rparr>)"

record stats =
  calls :: nat
  tokens :: int
  cost :: rat

record summary =
  total_calls :: nat
  total_tokens :: int
  total_cost :: rat
  by_provider :: "string \<rightharpoonup> stats"
  by_agent :: "string \<rightharpoonup> stats"

definition add_stats :: "(string \<rightharpoonup> stats) \<Rightarrow> string \<Rightarrow> int \<Rightarrow> rat \<Rightarrow> (string \<rightharpoonup> stats)" where
  "add_stats m k t c =
     (let s = (case m k of None \<Rightarrow> \<lparr>calls = 0, tokens = 0, cost = 0\<rparr> | Some s \<Rightarrow> s)
      in m(k \<mapsto> \<lparr>calls = calls s + 1, tokens = tokens s + t, cost = cost s + c\<rparr>))"

fun summarise :: "log_entry list \<Rightarrow> summary \<Rightarrow> summary" where
  "summarise [] s = s"
| "summarise (l # ls) s =
     (if status l \<noteq> Some ''success'' then summarise ls s
      else
        (let prov = (case log_provider l of None \<Rightarrow> ''unknown'' | Some p \<Rightarrow> p);
             ag = (case agent l of None \<Rightarrow> ''unknown'' | Some a \<Rightarrow> a);
             c = (case log_cost_usd l of None \<Rightarrow> 0 | Some c \<Rightarrow> c);
             t = (case log_total_tokens l of None \<Rightarrow> 0 | Some t \<Rightarrow> t)
         in summarise ls
              (s\<lparr>total_cost := total_cost s + c,
                 total_tokens := total_tokens s + t,
                 by_provider := add_stats (by_provider s) prov t c,
                 by_agent := add_stats (by_agent s) ag t c\<rparr>)))"

definition get_usage_summary :: "state \<Rightarrow> summary" where
  "get_usage_summary st =
     (let logs = load_logs (log_file st)
      in summarise logs
           \<lparr>total_calls = length logs, total_tokens = 0, total_cost = 0,
            by_provider = Map.empty, by_agent = Map.empty\<rparr>)"

definition check_cost_limit :: "config \<Rightarrow> state \<Rightarrow> bool \<times> rat \<times> rat" where
  "check_cost_limit cfg st =
     (let limit = (case hard_limit_dollars cfg of None \<Rightarrow> 100 | Some l \<Rightarrow> l);
          summary = get_usage_summary st;
          current = total_cost summary
      in (current < limit, current, limit))"

fun count_today :: "log_entry list \<Rightarrow> int \<Rightarrow> string \<Rightarrow> int \<Rightarrow> exn + int" where
  "count_today [] today agent_name today_requests = Inr today_requests"
| "count_today (l # ls) today agent_name today_requests =
     (case log_timestamp l of
        None \<Rightarrow> Inl (KeyError ''timestamp'')
      | Some ts \<Rightarrow>
          count_today ls today agent_name
            (if date ts = today \<and> agent l = Some agent_name then today_requests + 1
             else today_requests))"

definition check_requests_per_agent_per_day ::
  "config \<Rightarrow> string \<Rightarrow> state \<Rightarrow> (exn + bool \<times> int \<times> int) \<times> state" where
  "check_requests_per_agent_per_day cfg agent_name st =
     (let limit =
            (case agents cfg agent_name of
               None \<Rightarrow> 100
             | Some a \<Rightarrow> (case requests_per_day a of None \<Rightarrow> 100 | Some n \<Rightarrow> n));
          logs = load_logs (log_file st);
          (now, st1) = datetime_now st;
          today = date now
      in case count_today logs today agent_name 0 of
           Inl e \<Rightarrow> (Inl e, st1)
         | Inr today_requests \<Rightarrow> (Inr (today_requests < limit, today_requests, limit), st1))"

section \<open>APIClient\<close>

record client =
  agent_name :: string
  preferred_provider :: "string option"
  client_config :: config
  client_agent_config :: agent_config

text \<open>The constructor, once the configuration document has been read.\<close>

definition APIClient_init :: "string \<Rightarrow> config \<Rightarrow> string option \<Rightarrow> exn + client" where
  "APIClient_init name cfg preferred =
     (case agents cfg name of
        None \<Rightarrow> Inl (ValueError (AgentNotFound name))
      | Some a \<Rightarrow>
          Inr \<lparr>agent_name = name, preferred_provider = preferred,
               client_config = cfg, client_agent_config = a\<rparr>)"

subsection \<open>_call_with_retries\<close>

text \<open>
  The loop \<^verbatim>\<open>for attempt in range(max_attempts)\<close>, entered at \<open>attempt\<close>. A
  loop that runs out without returning makes the Python function return
  \<^verbatim>\<open>None\<close>.
\<close>

function retry_loop ::
  "client \<Rightarrow> provider_obj \<Rightarrow> request \<Rightarrow> nat \<Rightarrow> nat \<Rightarrow> state \<Rightarrow> (exn + api_response option) \<times> state" where
  "retry_loop cl p req max_attempts attempt st =
     (if \<not> attempt < max_attempts then (Inr None, st)
      else
        (case provider_call p req (emit (EvCall (kind p)) st) of
           (Inr r, st1) \<Rightarrow> (Inr (Some r), st1)
         | (Inl e, st1) \<Rightarrow>
            if attempt < max_attempts - 1 then
              (case api (client_config cl) of
                 None \<Rightarrow> (Inl (KeyError ''api''), st1)
               | Some a \<Rightarrow>
                  (let wait_time = (case retry_backoff_base a of None \<Rightarrow> 2 | Some b \<Rightarrow> b) ^ attempt
                   in if wait_time < 0 then (Inl (ValueError NegativeSleep), st1)
                      else retry_loop cl p req max_attempts (attempt + 1) (emit (EvSleep wait_time) st1)))
            else (Inl e, st1)))"
  by pat_completeness auto
termination
  by (relation "measure (\<lambda>(cl, p, req, max_attempts, attempt, st). max_attempts - attempt)") auto

definition call_with_retries ::
  "client \<Rightarrow> provider_obj \<Rightarrow> request \<Rightarrow> state \<Rightarrow> (exn + api_response option) \<times> state" where
  "call_with_retries cl p req st = retry_loop cl p req 3 0 st"

subsection \<open>call\<close>

definition providers_to_try :: "client \<Rightarrow> string list" where
  "providers_to_try cl =
     (let dflt = (case provider (client_agent_config cl) of None \<Rightarrow> ''claude'' | Some p \<Rightarrow> p);
          primary = (case preferred_provider cl of
                       None \<Rightarrow> dflt
                     | Some p \<Rightarrow> if p \<noteq> [] then p else dflt);
          fallbacks = fallback_providers (client_agent_config cl)
      in [primary] @ fallbacks)"

text \<open>The body of the \<^verbatim>\<open>try\<close> block for one provider name.\<close>

definition attempt_provider ::
  "client \<Rightarrow> request \<Rightarrow> string \<Rightarrow> state \<Rightarrow> (exn + api_response) \<times> state" where
  "attempt_provider cl req provider_name st =
     (case providers (client_config cl) provider_name of
        None \<Rightarrow> (Inl (ValueError (ProviderNotInConfig provider_name)), st)
      | Some provider_config \<Rightarrow>
         (case CredentialsManager_get (client_config cl) provider_name st of
            (Inl e, st1) \<Rightarrow> (Inl e, st1)
          | (Inr key, st1) \<Rightarrow>
             (case ProviderFactory_create st1 provider_name provider_config key of
                Inl e \<Rightarrow> (Inl e, st1)
              | Inr p \<Rightarrow>
                 (case call_with_retries cl p req st1 of
                    (Inl e, st2) \<Rightarrow> (Inl e, st2)
                  | (Inr None, st2) \<Rightarrow> (Inl AttributeError, st2)
                  | (Inr (Some response), st2) \<Rightarrow>
                      (Inr response,
                       log_request (agent_name cl) provider_name
                         (input_tokens response) (output_tokens response)
                         (resp_cost_usd response) ''success''
                         (Some (MaxTokens (req_max_tokens req))) st2)))))"

text \<open>
  The \<^verbatim>\<open>for provider_name in providers_to_try\<close> loop with its two handlers:
  a \<^verbatim>\<open>ValueError\<close> is raised again; any other exception ends the call when
  the name equals \<^verbatim>\<open>providers_to_try[-1]\<close> and moves on to the next name
  otherwise.
\<close>

fun provider_loop ::
  "client \<Rightarrow> request \<Rightarrow> string \<Rightarrow> string list \<Rightarrow> state \<Rightarrow> (exn + api_response option) \<times> state" where
  "provider_loop cl req last_name [] st = (Inr None, st)"
| "provider_loop cl req last_name (provider_name # rest) st =
     (case attempt_provider cl req provider_name (emit (EvTry provider_name) st) of
        (Inr response, st1) \<Rightarrow> (Inr (Some response), st1)
      | (Inl e, st1) \<Rightarrow>
         if is_ValueError e then (Inl e, st1)
         else if provider_name = last_name then
           (Inl (AllProvidersFailed e),
            log_request (agent_name cl) provider_name 0 0 0 ''failure'' (Some (ErrorText e)) st1)
         else provider_loop cl req last_name rest st1)"

definition APIClient_call ::
  "client \<Rightarrow> request \<Rightarrow> state \<Rightarrow> (exn + api_response option) \<times> state" where
  "APIClient_call cl req st =
     (case check_requests_per_agent_per_day (client_config cl) (agent_name cl) st of
        (Inl e, st1) \<Rightarrow> (Inl e, st1)
      | (Inr (within_daily_limit, requests_today, limit), st1) \<Rightarrow>
         if \<not> within_daily_limit then
           (Inl (ValueError (DailyLimitExceeded (agent_name cl) requests_today limit)), st1)
         else
           (case check_cost_limit (client_config cl) st1 of
              (within_cost_limit, c, limit) \<Rightarrow>
               if \<not> within_cost_limit then (Inl (ValueError (CostLimitExceeded c limit)), st1)
               else provider_loop cl req (last (providers_to_try cl)) (providers_to_try cl) st1))"

section \<open>Concurrent callers of log_request\<close>

text \<open>
  \<^verbatim>\<open>log_request\<close> touches the file twice: \<^verbatim>\<open>_load_logs\<close> reads all of it,
  and \<^verbatim>\<open>open(.., "w")\<close> with \<^verbatim>\<open>json.dump\<close> writes all of it. A caller
  that has built its entry is \<open>Ready\<close>; after the read it holds the list it loaded;
  after the write it is \<open>Done\<close>. A schedule names, step by step, which caller moves.
\<close>

datatype logger = Ready log_entry | Loaded "log_entry list" log_entry | Done

fun logger_step :: "file_state \<Rightarrow> logger \<Rightarrow> file_state \<times> logger" where
  "logger_step f (Ready e) = (f, Loaded (load_logs f) e)"
| "logger_step f (Loaded logs e) = (Logs (logs @ [e]), Done)"
| "logger_step f Done = (f, Done)"

fun run_schedule :: "nat list \<Rightarrow> file_state \<times> logger list \<Rightarrow> file_state \<times> logger list" where
  "run_schedule [] s = s"
| "run_schedule (i # sched) (f, ts) =
     (if i < length ts then
        (case logger_step f (ts ! i) of (f', t') \<Rightarrow> run_schedule sched (f', ts[i := t']))
      else run_schedule sched (f, ts))"

text \<open>One caller after the other: each does its read and its write before the next starts.\<close>

definition serial_schedule :: "nat \<Rightarrow> nat list" where
  "serial_schedule n = concat (map (\<lambda>i. [i, i]) [0..<n])"

section \<open>Notions used to state the properties\<close>


text \<open>The cost formula of the specification, per million tokens and scaled by 1000.\<close>

definition spec_cost :: "rat \<Rightarrow> rat \<Rightarrow> int \<Rightarrow> int \<Rightarrow> rat" where
  "spec_cost ri ro inp outp =
     of_int inp * ri / 1000000 * 1000 + of_int outp * ro / 1000000 * 1000"

definition billed :: "rat \<Rightarrow> rat \<Rightarrow> provider_config" where
  "billed ri ro =
     \<lparr>model = Some ''m'', enabled = True, max_tokens = None, api_key_env_var = Some ''KEY'',
      billing = Some \<lparr>input_per_mtok = Some ri, output_per_mtok = Some ro\<rparr>\<rparr>"

text \<open>The provider names the orchestrator has turned to, read off a trace.\<close>

fun tried :: "event list \<Rightarrow> string list" where
  "tried [] = []"
| "tried (EvTry p # es) = p # tried es"
| "tried (EvCall k # es) = tried es"
| "tried (EvSleep w # es) = tried es"

text \<open>
  The pre-flight part of \<^verbatim>\<open>call\<close>: both limit checks pass. The checks read the
  clock once and change nothing else.
\<close>

definition preflight_passes :: "client \<Rightarrow> state \<Rightarrow> bool" where
  "preflight_passes cl st =
     (case check_requests_per_agent_per_day (client_config cl) (agent_name cl) st of
        (Inl e, st1) \<Rightarrow> False
      | (Inr (within_daily_limit, requests_today, limit), st1) \<Rightarrow>
          within_daily_limit \<and> fst (check_cost_limit (client_config cl) st1))"

definition after_preflight :: "state \<Rightarrow> state" where
  "after_preflight st = st\<lparr>clock_reads := clock_reads st + 1\<rparr>"

text \<open>
  Steps a to c of one provider attempt (configuration lookup, credential, construction),
  as \<^verbatim>\<open>call\<close> performs them before it invokes the provider.
\<close>

definition resolve_provider :: "client \<Rightarrow> string \<Rightarrow> state \<Rightarrow> (exn + provider_obj) \<times> state" where
  "resolve_provider cl provider_name st =
     (case providers (client_config cl) provider_name of
        None \<Rightarrow> (Inl (ValueError (ProviderNotInConfig provider_name)), st)
      | Some provider_config \<Rightarrow>
         (case CredentialsManager_get (client_config cl) provider_name st of
            (Inl e, st1) \<Rightarrow> (Inl e, st1)
          | (Inr key, st1) \<Rightarrow>
             (case ProviderFactory_create st1 provider_name provider_config key of
                Inl e \<Rightarrow> (Inl e, st1)
              | Inr p \<Rightarrow> (Inr p, st1))))"

text \<open>
  The state in which the loop reaches the provider after the names \<open>pre\<close>, when every
  one of them failed with an exception other than \<^verbatim>\<open>ValueError\<close> and did not end the
  call; \<open>None\<close> when the loop does not get past them.
\<close>

fun fell_through :: "client \<Rightarrow> request \<Rightarrow> string \<Rightarrow> string list \<Rightarrow> state \<Rightarrow> state option" where
  "fell_through cl req last_name [] st = Some st"
| "fell_through cl req last_name (provider_name # pre) st =
     (case attempt_provider cl req provider_name (emit (EvTry provider_name) st) of
        (Inr response, st1) \<Rightarrow> None
      | (Inl e, st1) \<Rightarrow>
         if is_ValueError e \<or> provider_name = last_name then None
         else fell_through cl req last_name pre st1)"

text \<open>
  No credential can be resolved for a provider name: nothing is cached for it, and the
  provider is unknown, or names no environment variable, or the variable is unset or empty.
\<close>

definition credential_unresolvable :: "config \<Rightarrow> string \<Rightarrow> state \<Rightarrow> bool" where
  "credential_unresolvable cfg name st =
     (cache st (lower name) = None \<and>
      (case providers cfg (lower name) of
         None \<Rightarrow> True
       | Some pc \<Rightarrow>
          (case api_key_env_var pc of
             None \<Rightarrow> True
           | Some env_var \<Rightarrow>
               env_var = [] \<or> (case environ st env_var of None \<Rightarrow> True | Some k \<Rightarrow> k = []))))"


subsection \<open>A concrete configuration\<close>

definition demo_agent :: "string \<Rightarrow> agent_config" where
  "demo_agent name =
     (if name = ''math-agent'' then
        \<lparr>provider = Some ''chatgpt'', fallback_providers = [''claude''],
         requests_per_day = Some 2\<rparr>
      else
        \<lparr>provider = Some ''grok'', fallback_providers = [''mistral'', ''claude''],
         requests_per_day = Some 100\<rparr>)"

definition demo_config :: config where
  "demo_config =
     \<lparr>providers = [''claude'' \<mapsto> billed 3 15, ''chatgpt'' \<mapsto> billed 3 15,
                   ''grok'' \<mapsto> billed 3 15, ''Claude'' \<mapsto> billed 3 15,
                   ''mistral'' \<mapsto> (billed 3 15)\<lparr>enabled := False\<rparr>],
      agents = [''math-agent'' \<mapsto> demo_agent ''math-agent'',
                ''research-agent'' \<mapsto> demo_agent ''research-agent''],
      hard_limit_dollars = Some 50,
      api = Some \<lparr>retry_backoff_base = Some 2\<rparr>\<rparr>"

definition demo_client :: "string \<Rightarrow> string option \<Rightarrow> client" where
  "demo_client name preferred =
     \<lparr>agent_name = name, preferred_provider = preferred,
      client_config = demo_config, client_agent_config = demo_agent name\<rparr>"

definition demo_request :: request where
  "demo_request = \<lparr>messages = [(''user'', ''hi'')], system_prompt = None, req_max_tokens = None\<rparr>"

definition demo_raw :: raw_response where
  "demo_raw = \<lparr>raw_texts = [''ok''], raw_input_tokens = 1000, raw_output_tokens = 500\<rparr>"

text \<open>A network on which the first \<open>n\<close> requests time out and the later ones are answered.\<close>

definition flaky_net :: "nat \<Rightarrow> provider_kind \<Rightarrow> wire_request \<Rightarrow> nat \<Rightarrow> net_outcome" where
  "flaky_net n k wr i = (if i < n then NetRaise (TransportError ''timeout'') else NetOk demo_raw)"

definition demo_state :: "nat \<Rightarrow> file_state \<Rightarrow> state" where
  "demo_state n f =
     \<lparr>environ = [''KEY'' \<mapsto> ''secret''], importable = (\<lambda>pkg. True), net = flaky_net n,
      clock = (\<lambda>i. \<lparr>date = 0, time_of_day = of_nat i\<rparr>),
      log_file = f, cache = Map.empty, net_calls = 0, clock_reads = 0, trace = []\<rparr>"

definition demo_provider :: "provider_kind \<Rightarrow> provider_obj" where
  "demo_provider k = \<lparr>kind = k, pconfig = billed 3 15, api_key = ''secret''\<rparr>"

definition demo_entry :: "string \<Rightarrow> log_entry" where
  "demo_entry name = make_log_entry \<lparr>date = 0, time_of_day = 0\<rparr> name ''claude'' 1 1 0 ''success'' None"

definition demo_response :: "string \<Rightarrow> api_response" where
  "demo_response name =
     \<lparr>content = ''ok'', resp_model = ''m'', input_tokens = 1000, output_tokens = 500,
      resp_cost_usd = 21 / 2, resp_provider = name\<rparr>"

section \<open>Properties\<close>

declare retry_loop.simps [simp del]

subsection \<open>Rounding\<close>

lemma round_half_even_of_int: "round_half_even (of_int k) = k"
  by (simp add: round_half_even_def)

lemma py_round_exact:
  assumes "x * 10 ^ n = of_int k"
  shows "py_round x n = x"
proof -
  have "py_round x n = of_int k / 10 ^ n"
    using assms by (simp add: py_round_def round_half_even_of_int)
  also have "\<dots> = x"
    using assms [symmetric] by simp
  finally show ?thesis .
qed

subsection \<open>Cost of a call\<close>

lemma calculate_cost_rounded:
  assumes "billing cfg = Some b" "input_per_mtok b = Some ri" "output_per_mtok b = Some ro"
  shows "calculate_cost k cfg inp outp =
           Inr (py_round (of_int inp * ri / 1000 + of_int outp * ro / 1000) 6)"
  using assms
  by (cases k)
     (simp_all add: ClaudeProvider_calculate_cost_def ChatGPTProvider_calculate_cost_def
        GrokProvider_calculate_cost_def Let_def)

lemma spec_cost_exact:
  assumes "1000 * ri = of_int a" "1000 * ro = of_int c"
  shows "py_round (of_int inp * ri / 1000 + of_int outp * ro / 1000) 6 = spec_cost ri ro inp outp"
proof -
  have "(of_int inp * ri / 1000 + of_int outp * ro / 1000) * 10 ^ 6
          = of_int inp * (1000 * ri) + of_int outp * (1000 * ro)"
    by (simp add: field_simps)
  also have "\<dots> = of_int (inp * a + outp * c)"
    using assms by simp
  finally have "py_round (of_int inp * ri / 1000 + of_int outp * ro / 1000) 6
                  = of_int inp * ri / 1000 + of_int outp * ro / 1000"
    by (rule py_round_exact)
  moreover have "spec_cost ri ro inp outp = of_int inp * ri / 1000 + of_int outp * ro / 1000"
    by (simp add: spec_cost_def mult.commute)
  ultimately show ?thesis by simp
qed




subsection \<open>The cost limit\<close>




subsection \<open>Frame and evaluation lemmas\<close>

lemma datetime_now_eq:
  "datetime_now st = (clock st (clock_reads st), st\<lparr>clock_reads := clock_reads st + 1\<rparr>)"
  by (simp add: datetime_now_def)


lemma check_requests_frame:
  "check_requests_per_agent_per_day cfg name st = (r, st1) \<Longrightarrow>
     st1 = st\<lparr>clock_reads := clock_reads st + 1\<rparr>"
  by (auto simp: check_requests_per_agent_per_day_def datetime_now_eq Let_def split: sum.splits)

lemma provider_call_frame:
  "provider_call p req st = (r, st') \<Longrightarrow>
     trace st' = trace st \<and> log_file st' = log_file st \<and> cache st' = cache st
     \<and> clock_reads st' = clock_reads st \<and> net_calls st \<le> net_calls st'"
  by (cases "kind p")
     (auto simp: provider_call_def ClaudeProvider_call_def ChatGPTProvider_call_def
        GrokProvider_call_def Let_def
        split: option.splits net_outcome.splits sum.splits list.splits)

lemma emit_simps:
  "trace (emit e st) = trace st @ [e]" "net_calls (emit e st) = net_calls st"
  "net (emit e st) = net st" "log_file (emit e st) = log_file st"
  "cache (emit e st) = cache st" "clock_reads (emit e st) = clock_reads st"
  "environ (emit e st) = environ st" "importable (emit e st) = importable st"
  "clock (emit e st) = clock st"
  by (simp_all add: emit_def)

lemma demo_state_simps:
  "trace (demo_state n f) = []" "net_calls (demo_state n f) = 0"
  "net (demo_state n f) = flaky_net n" "log_file (demo_state n f) = f"
  "cache (demo_state n f) = Map.empty" "clock_reads (demo_state n f) = 0"
  "environ (demo_state n f) = [''KEY'' \<mapsto> ''secret'']" "importable (demo_state n f) = (\<lambda>pkg. True)"
  "clock (demo_state n f) = (\<lambda>i. \<lparr>date = 0, time_of_day = of_nat i\<rparr>)"
  by (simp_all add: demo_state_def)


lemma billed_3_15_cost: "calculate_cost k (billed 3 15) 1000 500 = Inr (21 / 2)"
proof -
  have "calculate_cost k (billed 3 15) 1000 500
          = Inr (py_round (of_int 1000 * 3 / 1000 + of_int 500 * 15 / 1000) 6)"
    by (rule calculate_cost_rounded
          [where b = "\<lparr>input_per_mtok = Some 3, output_per_mtok = Some 15\<rparr>"])
       (simp_all add: billed_def)
  moreover have "py_round (of_int 1000 * 3 / 1000 + of_int 500 * 15 / 1000) 6
                   = spec_cost 3 15 1000 500"
    by (rule spec_cost_exact [of 3 3000 15 15000]) simp_all
  moreover have "spec_cost 3 15 1000 500 = 21 / 2"
    by (simp add: spec_cost_def)
  ultimately show ?thesis by simp
qed

lemma demo_claude_call:
  assumes "net st = flaky_net n"
  shows "provider_call (demo_provider Claude) demo_request st =
           (if net_calls st < n then Inl (TransportError ''timeout'')
            else Inr (demo_response ''claude''),
            st\<lparr>net_calls := net_calls st + 1\<rparr>)"
proof -
  have m: "model (billed 3 15) = Some ''m''"
    by (simp add: billed_def)
  show ?thesis
    using assms
    by (simp add: provider_call_def ClaudeProvider_call_def demo_provider_def m Let_def
          flaky_net_def demo_raw_def billed_3_15_cost demo_response_def)
qed

subsection \<open>A missing or corrupt log\<close>



subsection \<open>Pre-flight checks\<close>

text \<open>
  C4. \<^verbatim>\<open>call\<close> checks the daily request limit first and the cost limit second.
  When one of them fails the call raises the corresponding \<^verbatim>\<open>ValueError\<close> (the
  daily one when both fail) in a state that differs from the initial one by the one
  reading of the clock only: no provider is turned to or invoked, nothing sleeps, and
  the log file is untouched.
\<close>

theorem preflight_limits:
  assumes "check_requests_per_agent_per_day (client_config cl) (agent_name cl) st
             = (Inr (d, n, dl), st1)"
      and "check_cost_limit (client_config cl) st1 = (w, c, l)"
      and "\<not> d \<or> \<not> w"
  shows "APIClient_call cl req st =
           (Inl (ValueError (if \<not> d then DailyLimitExceeded (agent_name cl) n dl
                             else CostLimitExceeded c l)), st1)
         \<and> st1 = st\<lparr>clock_reads := clock_reads st + 1\<rparr>"
  using assms check_requests_frame [OF assms(1)]
  by (auto simp: APIClient_call_def)

lemma demo_daily_check:
  "check_requests_per_agent_per_day demo_config ''math-agent''
     (demo_state 0 (Logs [demo_entry ''math-agent'', demo_entry ''math-agent'']))
   = (Inr (False, 2, 2),
      (demo_state 0 (Logs [demo_entry ''math-agent'', demo_entry ''math-agent'']))\<lparr>clock_reads := 1\<rparr>)"
  by (simp add: check_requests_per_agent_per_day_def demo_config_def demo_agent_def demo_state_def
        demo_entry_def make_log_entry_def datetime_now_eq Let_def)

theorem preflight_limits_witness:
  "APIClient_call (demo_client ''math-agent'' None) demo_request
     (demo_state 0 (Logs [demo_entry ''math-agent'', demo_entry ''math-agent'']))
   = (Inl (ValueError (DailyLimitExceeded ''math-agent'' 2 2)),
      (demo_state 0 (Logs [demo_entry ''math-agent'', demo_entry ''math-agent'']))\<lparr>clock_reads := 1\<rparr>)"
proof -
  let ?st = "demo_state 0 (Logs [demo_entry ''math-agent'', demo_entry ''math-agent''])"
  let ?cl = "demo_client ''math-agent'' None"
  have c: "client_config ?cl = demo_config" "agent_name ?cl = ''math-agent''"
    by (simp_all add: demo_client_def)
  have d: "check_requests_per_agent_per_day (client_config ?cl) (agent_name ?cl) ?st
             = (Inr (False, 2, 2), ?st\<lparr>clock_reads := 1\<rparr>)"
    unfolding c by (rule demo_daily_check)
  obtain w x l where k: "check_cost_limit (client_config ?cl) (?st\<lparr>clock_reads := 1\<rparr>) = (w, x, l)"
    by (cases "check_cost_limit (client_config ?cl) (?st\<lparr>clock_reads := 1\<rparr>)")
  have h: "\<not> False \<or> \<not> w"
    by simp
  have "APIClient_call ?cl demo_request ?st =
          (Inl (ValueError (if \<not> False then DailyLimitExceeded (agent_name ?cl) 2 2
                            else CostLimitExceeded x l)), ?st\<lparr>clock_reads := 1\<rparr>)"
    using preflight_limits [OF d k h, of demo_request] by (rule conjunct1)
  then show ?thesis
    by (simp only: c if_True not_False_eq_True)
qed

subsection \<open>Retries\<close>

lemma retry_loop_step:
  "attempt < max_attempts \<Longrightarrow>
   retry_loop cl p req max_attempts attempt st =
     (case provider_call p req (emit (EvCall (kind p)) st) of
        (Inr r, st1) \<Rightarrow> (Inr (Some r), st1)
      | (Inl e, st1) \<Rightarrow>
         if attempt < max_attempts - 1 then
           (case api (client_config cl) of
              None \<Rightarrow> (Inl (KeyError ''api''), st1)
            | Some a \<Rightarrow>
               (let wait_time = (case retry_backoff_base a of None \<Rightarrow> 2 | Some b \<Rightarrow> b) ^ attempt
                in if wait_time < 0 then (Inl (ValueError NegativeSleep), st1)
                   else retry_loop cl p req max_attempts (attempt + 1) (emit (EvSleep wait_time) st1)))
         else (Inl e, st1))"
  by (subst retry_loop.simps) simp




lemma grok_call: "kind p = Grok \<Longrightarrow> provider_call p req st = (Inl NotImplementedError, st)"
  by (simp add: provider_call_def GrokProvider_call_def)





subsection \<open>One provider attempt and the provider loop\<close>

lemma tried_append: "tried (xs @ ys) = tried xs @ tried ys"
  by (induction xs rule: tried.induct) simp_all


lemma provider_call_resp:
  "provider_call p req st = (Inr r, st') \<Longrightarrow> PROVIDERS (resp_provider r) = Some (kind p)"
  by (cases "kind p")
     (auto simp: provider_call_def ClaudeProvider_call_def ChatGPTProvider_call_def
        GrokProvider_call_def PROVIDERS_def Let_def
        split: option.splits net_outcome.splits sum.splits list.splits)

lemma retry_loop_frame:
  "retry_loop cl p req max_attempts attempt st = (r, st') \<Longrightarrow>
     log_file st' = log_file st \<and> clock_reads st' = clock_reads st
     \<and> tried (trace st') = tried (trace st)
     \<and> (\<forall>resp. r = Inr (Some resp) \<longrightarrow> PROVIDERS (resp_provider resp) = Some (kind p))"
proof (induction cl p req max_attempts attempt st arbitrary: r st' rule: retry_loop.induct)
  case (1 cl p req max_attempts attempt st)
  show ?case
  proof (cases "attempt < max_attempts")
    case False
    with "1.prems" show ?thesis
      by (subst (asm) retry_loop.simps) auto
  next
    case True
    obtain o1 s1 where pc: "provider_call p req (emit (EvCall (kind p)) st) = (o1, s1)"
      by (cases "provider_call p req (emit (EvCall (kind p)) st)")
    have f1: "log_file s1 = log_file st" "clock_reads s1 = clock_reads st"
             "tried (trace s1) = tried (trace st)"
      using provider_call_frame [OF pc] by (simp_all add: emit_simps tried_append)
    show ?thesis
    proof (cases o1)
      case (Inr resp)
      with "1.prems" True pc f1 provider_call_resp [of p req _ resp s1] show ?thesis
        by (auto simp: retry_loop_step)
    next
      case (Inl e)
      show ?thesis
      proof (cases "attempt < max_attempts - 1")
        case False
        with "1.prems" True pc f1 Inl show ?thesis
          by (auto simp: retry_loop_step)
      next
        case more: True
        show ?thesis
        proof (cases "api (client_config cl)")
          case None
          with "1.prems" True pc f1 Inl more show ?thesis
            by (auto simp: retry_loop_step)
        next
          case (Some a)
          define w where "w = (case retry_backoff_base a of None \<Rightarrow> 2 | Some b \<Rightarrow> b) ^ attempt"
          have step: "retry_loop cl p req max_attempts attempt st =
                        (if w < 0 then (Inl (ValueError NegativeSleep), s1)
                         else retry_loop cl p req max_attempts (attempt + 1) (emit (EvSleep w) s1))"
            using more
            by (subst retry_loop_step [OF \<open>attempt < max_attempts\<close>])
               (simp add: pc Inl Some Let_def w_def [symmetric])
          show ?thesis
          proof (cases "w < 0")
            case True
            with "1.prems" step f1 show ?thesis
              by auto
          next
            case False
            have rec: "retry_loop cl p req max_attempts (attempt + 1) (emit (EvSleep w) s1) = (r, st')"
              using "1.prems" step False by simp
            have nn: "\<not> \<not> attempt < max_attempts"
              using \<open>attempt < max_attempts\<close> by simp
            have "log_file st' = log_file (emit (EvSleep w) s1)
                  \<and> clock_reads st' = clock_reads (emit (EvSleep w) s1)
                  \<and> tried (trace st') = tried (trace (emit (EvSleep w) s1))
                  \<and> (\<forall>resp. r = Inr (Some resp) \<longrightarrow> PROVIDERS (resp_provider resp) = Some (kind p))"
              by (rule "1.IH" [OF nn pc [symmetric] Inl more Some w_def False rec])
            with f1 show ?thesis
              by (simp add: emit_simps tried_append)
          qed
        qed
      qed
    qed
  qed
qed


lemma call_with_retries_frame:
  "call_with_retries cl p req st = (r, st') \<Longrightarrow>
     log_file st' = log_file st \<and> clock_reads st' = clock_reads st
     \<and> tried (trace st') = tried (trace st)
     \<and> (\<forall>resp. r = Inr (Some resp) \<longrightarrow> PROVIDERS (resp_provider resp) = Some (kind p))"
  unfolding call_with_retries_def by (rule retry_loop_frame)

lemma credentials_error:
  "CredentialsManager_get cfg name st = (Inl e, st') \<Longrightarrow> st' = st \<and> is_ValueError e"
  by (auto simp: CredentialsManager_get_def Let_def split: option.splits if_splits)

lemma credentials_frame:
  "CredentialsManager_get cfg name st = (r, st') \<Longrightarrow>
     log_file st' = log_file st \<and> trace st' = trace st \<and> clock_reads st' = clock_reads st
     \<and> net_calls st' = net_calls st"
  by (auto simp: CredentialsManager_get_def Let_def split: option.splits if_splits)

lemma create_kind:
  "ProviderFactory_create st name cfg key = Inr p \<Longrightarrow> PROVIDERS (lower name) = Some (kind p)"
  by (auto simp: ProviderFactory_create_def provider_init_def Let_def
        split: option.splits if_splits provider_kind.splits)


lemma log_request_file:
  "log_file (log_request name prov tin tout c stat md st) =
     Logs (load_logs (log_file st) @
           [make_log_entry (clock st (clock_reads st)) name prov tin tout c stat md])"
  by (simp add: log_request_def datetime_now_eq Let_def)

lemma log_request_trace: "trace (log_request name prov tin tout c stat md st) = trace st"
  by (simp add: log_request_def datetime_now_eq Let_def)

lemma attempt_provider_resolve:
  "attempt_provider cl req name st =
     (case resolve_provider cl name st of
        (Inl e, st1) \<Rightarrow> (Inl e, st1)
      | (Inr p, st1) \<Rightarrow>
         (case call_with_retries cl p req st1 of
            (Inl e, st2) \<Rightarrow> (Inl e, st2)
          | (Inr None, st2) \<Rightarrow> (Inl AttributeError, st2)
          | (Inr (Some response), st2) \<Rightarrow>
              (Inr response,
               log_request (agent_name cl) name (input_tokens response) (output_tokens response)
                 (resp_cost_usd response) ''success'' (Some (MaxTokens (req_max_tokens req))) st2)))"
  by (simp add: attempt_provider_def resolve_provider_def split: option.splits prod.splits sum.splits)

lemma resolve_frame:
  "resolve_provider cl name st = (r, st') \<Longrightarrow>
     log_file st' = log_file st \<and> trace st' = trace st \<and> clock_reads st' = clock_reads st
     \<and> net_calls st' = net_calls st
     \<and> (\<forall>p. r = Inr p \<longrightarrow> PROVIDERS (lower name) = Some (kind p))"
  by (auto simp: resolve_provider_def split: option.splits prod.splits sum.splits
        dest: credentials_frame create_kind)

lemma attempt_provider_error:
  assumes "attempt_provider cl req name st = (Inl e, st')"
  shows "log_file st' = log_file st \<and> tried (trace st') = tried (trace st)"
proof -
  obtain r1 s1 where rp: "resolve_provider cl name st = (r1, s1)"
    by (cases "resolve_provider cl name st")
  note f1 = resolve_frame [OF rp]
  show ?thesis
  proof (cases r1)
    case (Inl e1)
    with assms rp f1 show ?thesis
      by (simp add: attempt_provider_resolve)
  next
    case (Inr p)
    obtain r2 s2 where cw: "call_with_retries cl p req s1 = (r2, s2)"
      by (cases "call_with_retries cl p req s1")
    note f2 = call_with_retries_frame [OF cw]
    from assms rp Inr cw have "s2 = st'"
      by (auto simp: attempt_provider_resolve split: sum.splits option.splits)
    with f1 f2 show ?thesis by simp
  qed
qed







subsection \<open>The whole call\<close>


lemma call_unfold:
  assumes "check_requests_per_agent_per_day (client_config cl) (agent_name cl) st = (r, s1)"
      and "check_cost_limit (client_config cl) s1 = (w, c, l)"
  shows "APIClient_call cl req st =
           (case r of
              Inl e \<Rightarrow> (Inl e, s1)
            | Inr (d, n, dl) \<Rightarrow>
               if \<not> d then (Inl (ValueError (DailyLimitExceeded (agent_name cl) n dl)), s1)
               else if \<not> w then (Inl (ValueError (CostLimitExceeded c l)), s1)
               else provider_loop cl req (last (providers_to_try cl)) (providers_to_try cl) s1)"
  by (simp add: APIClient_call_def assms split: sum.splits prod.splits)

lemma preflight_unfold:
  assumes "check_requests_per_agent_per_day (client_config cl) (agent_name cl) st = (r, s1)"
      and "check_cost_limit (client_config cl) s1 = (w, c, l)"
  shows "preflight_passes cl st = (case r of Inl e \<Rightarrow> False | Inr (d, n, dl) \<Rightarrow> d \<and> w)"
  by (simp add: preflight_passes_def assms split: sum.splits prod.splits)


lemma call_passes:
  assumes "preflight_passes cl st"
  shows "APIClient_call cl req st =
           provider_loop cl req (last (providers_to_try cl)) (providers_to_try cl) (after_preflight st)"
proof -
  obtain r s1 where cr: "check_requests_per_agent_per_day (client_config cl) (agent_name cl) st = (r, s1)"
    by (cases "check_requests_per_agent_per_day (client_config cl) (agent_name cl) st")
  obtain w c l where cc: "check_cost_limit (client_config cl) s1 = (w, c, l)"
    by (cases "check_cost_limit (client_config cl) s1")
  have s1: "s1 = after_preflight st"
    unfolding after_preflight_def by (rule check_requests_frame [OF cr])
  from assms have "case r of Inl e \<Rightarrow> False | Inr (d, n, dl) \<Rightarrow> d \<and> w"
    unfolding preflight_unfold [OF cr cc] .
  then have "APIClient_call cl req st =
          provider_loop cl req (last (providers_to_try cl)) (providers_to_try cl) s1"
    by (simp only: call_unfold [OF cr cc]) (simp split: sum.splits prod.splits)
  then show ?thesis
    by (simp only: s1)
qed



lemma after_preflight_simps:
  "log_file (after_preflight st) = log_file st" "trace (after_preflight st) = trace st"
  "net_calls (after_preflight st) = net_calls st" "cache (after_preflight st) = cache st"
  "environ (after_preflight st) = environ st" "importable (after_preflight st) = importable st"
  "net (after_preflight st) = net st" "clock (after_preflight st) = clock st"
  "clock_reads (after_preflight st) = clock_reads st + 1"
  by (simp_all add: after_preflight_def)





lemma create_disabled:
  "\<not> enabled pc \<Longrightarrow> \<exists>v. ProviderFactory_create st name pc key = Inl (ValueError v)"
  by (auto simp: ProviderFactory_create_def Let_def split: option.splits)

lemma resolve_config_error:
  assumes "providers (client_config cl) name = None
           \<or> (\<exists>pc. providers (client_config cl) name = Some pc \<and> \<not> enabled pc)
           \<or> (\<exists>e s. CredentialsManager_get (client_config cl) name st = (Inl e, s))"
  shows "\<exists>v s1. resolve_provider cl name st = (Inl (ValueError v), s1)"
proof (cases "providers (client_config cl) name")
  case None
  then show ?thesis by (simp add: resolve_provider_def)
next
  case (Some pc)
  obtain r s where cg: "CredentialsManager_get (client_config cl) name st = (r, s)"
    by (cases "CredentialsManager_get (client_config cl) name st")
  show ?thesis
  proof (cases r)
    case (Inl e)
    with credentials_error [of "client_config cl" name st e s] cg obtain v where "e = ValueError v"
      by (cases e) auto
    with Some cg Inl show ?thesis
      by (simp add: resolve_provider_def)
  next
    case (Inr key)
    with assms Some cg have "\<not> enabled pc"
      by auto
    from create_disabled [OF this, of s name key] obtain v where
      "ProviderFactory_create s name pc key = Inl (ValueError v)"
      by blast
    with Some cg Inr show ?thesis
      by (simp add: resolve_provider_def)
  qed
qed

lemma loop_resolve_error:
  assumes "resolve_provider cl name (emit (EvTry name) st) = (Inl (ValueError v), s2)"
  shows "provider_loop cl req lname (name # rest) st = (Inl (ValueError v), s2)
         \<and> log_file s2 = log_file st \<and> trace s2 = trace st @ [EvTry name]
         \<and> net_calls s2 = net_calls st"
  using assms resolve_frame [OF assms]
  by (simp add: attempt_provider_resolve emit_simps)

lemma fell_through_loop:
  "fell_through cl req lname pre st = Some s1 \<Longrightarrow>
     provider_loop cl req lname (pre @ ps) st = provider_loop cl req lname ps s1
     \<and> log_file s1 = log_file st"
proof (induction pre arbitrary: st)
  case Nil
  then show ?case by simp
next
  case (Cons p pre)
  obtain o1 t1 where ap: "attempt_provider cl req p (emit (EvTry p) st) = (o1, t1)"
    by (cases "attempt_provider cl req p (emit (EvTry p) st)")
  from Cons.prems ap obtain e where o1: "o1 = Inl e" and c: "\<not> is_ValueError e" "p \<noteq> lname"
    and rec: "fell_through cl req lname pre t1 = Some s1"
    by (cases o1) (auto split: if_splits)
  have "log_file t1 = log_file st"
    using attempt_provider_error [OF ap [unfolded o1]] by (simp add: emit_simps)
  with Cons.IH [OF rec] ap o1 c show ?case
    by simp
qed

subsection \<open>Runs on the concrete configuration, and the growth of the log\<close>

lemma billed_simps:
  "model (billed a b) = Some ''m''" "enabled (billed a b)" "max_tokens (billed a b) = None"
  "api_key_env_var (billed a b) = Some ''KEY''"
  "billing (billed a b) = Some \<lparr>input_per_mtok = Some a, output_per_mtok = Some b\<rparr>"
  by (simp_all add: billed_def)

lemma demo_providers:
  "providers demo_config ''claude'' = Some (billed 3 15)"
  "providers demo_config ''chatgpt'' = Some (billed 3 15)"
  "providers demo_config ''grok'' = Some (billed 3 15)"
  "providers demo_config ''Claude'' = Some (billed 3 15)"
  "providers demo_config ''mistral'' = Some ((billed 3 15)\<lparr>enabled := False\<rparr>)"
  by (simp_all add: demo_config_def)

lemma demo_client_simps:
  "client_config (demo_client a pref) = demo_config" "agent_name (demo_client a pref) = a"
  "preferred_provider (demo_client a pref) = pref"
  "client_agent_config (demo_client a pref) = demo_agent a"
  by (simp_all add: demo_client_def)

lemma demo_lower:
  "lower ''claude'' = ''claude''" "lower ''chatgpt'' = ''chatgpt''" "lower ''grok'' = ''grok''"
  "lower ''Claude'' = ''claude''" "lower ''mistral'' = ''mistral''"
  by (simp_all add: lower_def lower_char_def)

lemma demo_preflight: "preflight_passes (demo_client ''math-agent'' pref) (demo_state n Missing)"
  by (simp add: preflight_passes_def check_requests_per_agent_per_day_def datetime_now_eq Let_def
        demo_client_simps demo_state_simps check_cost_limit_def get_usage_summary_def
        demo_config_def demo_agent_def)

lemma demo_try_math: "providers_to_try (demo_client ''math-agent'' None) = [''chatgpt'', ''claude'']"
  by (simp add: providers_to_try_def demo_client_simps demo_agent_def)


lemma demo_chatgpt_call:
  assumes "net st = flaky_net n"
  shows "provider_call (demo_provider ChatGPT) demo_request st =
           (if net_calls st < n then Inl (TransportError ''timeout'')
            else Inr (demo_response ''chatgpt''),
            st\<lparr>net_calls := net_calls st + 1\<rparr>)"
  using assms
  by (simp add: provider_call_def ChatGPTProvider_call_def demo_provider_def billed_simps Let_def
        flaky_net_def demo_raw_def billed_3_15_cost demo_response_def demo_request_def)

lemma demo_config_api: "api demo_config = Some \<lparr>retry_backoff_base = Some 2\<rparr>"
  by (simp add: demo_config_def)

lemma demo_kind: "kind (demo_provider k) = k"
  by (simp add: demo_provider_def)



lemma credentials_fail_iff:
  "(\<exists>e s. CredentialsManager_get cfg name st = (Inl e, s)) = credential_unresolvable cfg name st"
  by (auto simp: CredentialsManager_get_def credential_unresolvable_def Let_def
        split: option.splits if_splits)


lemmas demo_eval =
  call_passes demo_preflight demo_try_math attempt_provider_def
  demo_client_simps demo_providers CredentialsManager_get_def demo_lower
  emit_simps after_preflight_simps demo_state_simps billed_simps Let_def
  ProviderFactory_create_def PROVIDERS_def provider_init_def
  call_with_retries_def retry_loop_step
  demo_chatgpt_call demo_claude_call grok_call demo_kind demo_config_api
  log_request_file log_request_trace






subsection \<open>Order of the providers\<close>








subsection \<open>Configuration and credential errors\<close>

lemma demo_preflight_research:
  "preflight_passes (demo_client ''research-agent'' pref) (demo_state n Missing)"
  by (simp add: preflight_passes_def check_requests_per_agent_per_day_def datetime_now_eq Let_def
        demo_client_simps demo_state_simps check_cost_limit_def get_usage_summary_def
        demo_config_def demo_agent_def)

lemma demo_try_research:
  "providers_to_try (demo_client ''research-agent'' None) = [''grok'', ''mistral'', ''claude'']"
  by (simp add: providers_to_try_def demo_client_simps demo_agent_def)

lemma demo_grok_fell_through:
  "\<exists>s1. fell_through (demo_client ''research-agent'' None) demo_request ''claude'' [''grok'']
           (after_preflight (demo_state 0 Missing)) = Some s1"
  by (simp add: demo_eval demo_provider_def [symmetric])

text \<open>
  C1. Suppose the limit checks pass and the loop gets to the provider \<open>name\<close> of the
  list, the providers \<open>pre\<close> before it having failed over (for the primary, \<open>pre\<close> is
  empty). If \<open>name\<close> is absent from the providers map, or is disabled, or no credential
  can be resolved for it, then resolving it raises a \<^verbatim>\<open>ValueError\<close> and the call
  raises that very error at once: it is the last thing the call does, no provider call,
  retry or sleep follows, no later provider is turned to, and the log file is what it
  was before the call.
\<close>

theorem config_errors_abort:
  assumes "preflight_passes cl st"
      and "providers_to_try cl = pre @ name # rest"
      and "fell_through cl req (last (providers_to_try cl)) pre (after_preflight st) = Some s1"
      and "providers (client_config cl) name = None
           \<or> (\<exists>pc. providers (client_config cl) name = Some pc \<and> \<not> enabled pc)
           \<or> credential_unresolvable (client_config cl) name (emit (EvTry name) s1)"
  shows "\<exists>v s2. resolve_provider cl name (emit (EvTry name) s1) = (Inl (ValueError v), s2)
           \<and> APIClient_call cl req st = (Inl (ValueError v), s2)
           \<and> log_file s2 = log_file st \<and> trace s2 = trace s1 @ [EvTry name]
           \<and> net_calls s2 = net_calls s1"
proof -
  let ?lname = "last (providers_to_try cl)"
  from assms(4) have "providers (client_config cl) name = None
           \<or> (\<exists>pc. providers (client_config cl) name = Some pc \<and> \<not> enabled pc)
           \<or> (\<exists>e s. CredentialsManager_get (client_config cl) name (emit (EvTry name) s1) = (Inl e, s))"
    by (simp only: credentials_fail_iff)
  from resolve_config_error [OF this] obtain v s2 where
    rp: "resolve_provider cl name (emit (EvTry name) s1) = (Inl (ValueError v), s2)"
    by blast
  note le = loop_resolve_error [OF rp, of req ?lname rest]
  note ft = fell_through_loop [OF assms(3), of "name # rest"]
  have "APIClient_call cl req st =
          provider_loop cl req ?lname (pre @ name # rest) (after_preflight st)"
    using call_passes [OF assms(1), of req] by (simp only: assms(2))
  also have "\<dots> = provider_loop cl req ?lname (name # rest) s1"
    using ft by (rule conjunct1)
  also have "\<dots> = (Inl (ValueError v), s2)"
    using le by (rule conjunct1)
  finally have c: "APIClient_call cl req st = (Inl (ValueError v), s2)" .
  have "log_file s2 = log_file st"
    using le ft by (simp add: after_preflight_simps)
  with rp c le show ?thesis
    by blast
qed

theorem config_errors_abort_witness:
  "\<exists>v s2. APIClient_call (demo_client ''research-agent'' None) demo_request (demo_state 0 Missing)
             = (Inl (ValueError v), s2)
          \<and> log_file s2 = Missing"
proof -
  let ?cl = "demo_client ''research-agent'' None"
  let ?st = "demo_state 0 Missing"
  have l: "last (providers_to_try ?cl) = ''claude''"
    by (simp add: demo_try_research)
  from demo_grok_fell_through obtain s1 where
    ft: "fell_through ?cl demo_request (last (providers_to_try ?cl)) [''grok'']
           (after_preflight ?st) = Some s1"
    unfolding l by blast
  have p: "providers_to_try ?cl = [''grok''] @ ''mistral'' # [''claude'']"
    by (simp add: demo_try_research)
  have d: "providers (client_config ?cl) ''mistral'' = None
           \<or> (\<exists>pc. providers (client_config ?cl) ''mistral'' = Some pc \<and> \<not> enabled pc)
           \<or> credential_unresolvable (client_config ?cl) ''mistral'' (emit (EvTry ''mistral'') s1)"
    by (simp add: demo_client_simps demo_providers)
  from config_errors_abort [OF demo_preflight_research p ft d] show ?thesis
    by (auto simp: demo_state_simps)
qed

subsection \<open>Callers of log_request, one after the other and interleaved\<close>

lemma serial_schedule_Suc:
  "concat (map (\<lambda>i. [i, i]) [k..<k + Suc n]) = k # k # concat (map (\<lambda>i. [i, i]) [Suc k..<Suc k + n])"
  by (simp add: upt_conv_Cons)

lemma run_step:
  "i < length ts \<Longrightarrow> logger_step f (ts ! i) = (f', t') \<Longrightarrow> ts[i := t'] = ts' \<Longrightarrow>
     run_schedule (i # sched) (f, ts) = run_schedule sched (f', ts')"
  by auto

lemma run_serial:
  "run_schedule (concat (map (\<lambda>i. [i, i]) [k..<k + length es]))
       (f, replicate k Done @ map Ready es)
     = ((if es = [] then f else Logs (load_logs f @ es)), replicate (k + length es) Done)"
proof (induction es arbitrary: k f)
  case Nil
  then show ?case by simp
next
  case (Cons e es)
  let ?ts = "replicate k Done @ Ready e # map Ready es"
  let ?ts1 = "replicate k Done @ Loaded (load_logs f) e # map Ready es"
  let ?f2 = "Logs (load_logs f @ [e])"
  let ?rest = "concat (map (\<lambda>i. [i, i]) [Suc k..<Suc k + length es])"
  have len: "k < length ?ts" "k < length ?ts1"
    by simp_all
  have n0: "?ts ! k = Ready e"
    by (simp add: nth_append)
  have u0: "?ts[k := Loaded (load_logs f) e] = ?ts1"
    by (simp add: list_update_append)
  have n1: "?ts1 ! k = Loaded (load_logs f) e"
    by (simp add: nth_append)
  have u1: "?ts1[k := Done] = replicate (Suc k) Done @ map Ready es"
    by (simp add: list_update_append replicate_append_same)
  have "run_schedule (concat (map (\<lambda>i. [i, i]) [k..<k + length (e # es)]))
          (f, replicate k Done @ map Ready (e # es))
        = run_schedule (k # k # ?rest) (f, ?ts)"
    by (simp only: serial_schedule_Suc list.map length_Cons)
  also have "\<dots> = run_schedule (k # ?rest) (f, ?ts1)"
    by (rule run_step [OF len(1) _ u0]) (simp add: n0)
  also have "\<dots> = run_schedule ?rest (?f2, replicate (Suc k) Done @ map Ready es)"
    by (rule run_step [OF len(2) _ u1]) (simp add: n1)
  also have "\<dots> = ((if es = [] then ?f2 else Logs (load_logs ?f2 @ es)),
                     replicate (Suc k + length es) Done)"
    by (rule Cons.IH)
  finally show ?case
    by simp
qed

lemma log_request_two_steps:
  "log_file (log_request name prov tin tout c stat md st)
     = fst (run_schedule [0, 0]
              (log_file st,
               [Ready (make_log_entry (clock st (clock_reads st)) name prov tin tout c stat md)]))"
  by (simp add: log_request_file)

lemma lost_update:
  "run_schedule [0, 1, 0, 1] (Logs [], [Ready e1, Ready e2]) = (Logs [e2], [Done, Done])"
  by simp

text \<open>
  C9 (as amended). The effect of \<^verbatim>\<open>log_request\<close> on the file is that of one caller
  doing its read step and then its write step. When N callers run one after the other,
  each doing both steps before the next starts, the log afterwards holds what it held
  before followed by their N entries. (Nothing in the code orders callers that run at
  the same time.)
\<close>

theorem serial_log_requests:
  "log_file (log_request name prov tin tout c stat md st)
     = fst (run_schedule [0, 0]
              (log_file st,
               [Ready (make_log_entry (clock st (clock_reads st)) name prov tin tout c stat md)]))
   \<and> load_logs (fst (run_schedule (serial_schedule (length es)) (f, map Ready es)))
       = load_logs f @ es
   \<and> snd (run_schedule (serial_schedule (length es)) (f, map Ready es))
       = replicate (length es) Done"
  using run_serial [of 0 es f]
  by (simp add: serial_schedule_def log_request_two_steps del: run_schedule.simps)

theorem serial_log_requests_witness:
  "load_logs (fst (run_schedule (serial_schedule 2)
                     (Missing, [Ready (demo_entry ''a''), Ready (demo_entry ''b'')])))
     = [demo_entry ''a'', demo_entry ''b'']"
proof -
  have "load_logs (fst (run_schedule (serial_schedule (length [demo_entry ''a'', demo_entry ''b'']))
                          (Missing, map Ready [demo_entry ''a'', demo_entry ''b''])))
          = load_logs Missing @ [demo_entry ''a'', demo_entry ''b'']"
    using serial_log_requests [of _ _ _ _ _ _ _ _ "[demo_entry ''a'', demo_entry ''b'']" Missing]
    by (rule conjunct2 [THEN conjunct1])
  then show ?thesis
    by (simp add: numeral_2_eq_2)
qed

text \<open>
  C9 as stated fails: two callers that both read the empty log before either writes
  leave one entry, the second writer's.
\<close>

theorem serial_log_requests_counterexample:
  "run_schedule [0, 1, 0, 1] (Logs [], [Ready (demo_entry ''a''), Ready (demo_entry ''b'')])
     = (Logs [demo_entry ''b''], [Done, Done])
   \<and> length (load_logs (fst (run_schedule [0, 1, 0, 1]
                 (Logs [], [Ready (demo_entry ''a''), Ready (demo_entry ''b'')])))) = 1"
  by (simp add: lost_update)

end
